theory Spec2Isabelle
  imports Main "HOL-Library.Word" "HOL-Library.Signed_Division"
begin

section \<open>The batching and delivery pipeline of gollum\<close>

text \<open>
  The development embeds \<^verbatim>\<open>components.BatchedWriterAssembly\<close>
  (src/unnamed/part_000) and \<^verbatim>\<open>producer.Socket\<close> (src/producer/null.go).
  Both are written against package \<^verbatim>\<open>core\<close> (MessageBatch, WriterAssembly,
  ProducerBase), whose code is not part of the sources at hand; those parts are
  modelled from the specification and marked as such.

  Go objects that are shared through interface values (an \<^verbatim>\<open>io.Writer\<close>, a
  \<^verbatim>\<open>net.Conn\<close>) live in an explicit store and are referred to by handles, so
  that two fields holding the same writer see the same object. Reading the clock
  (\<^verbatim>\<open>time.Now()\<close>) is an argument \<open>now\<close> of the operation that reads it.
\<close>

subsection \<open>Messages, sinks and the store\<close>

record message =
  payload :: string
  streamID :: nat
  sequence :: nat
  dropStreamID :: nat

type_synonym handle = nat
type_synonym time = int \<comment> \<open>\<^verbatim>\<open>time.Time\<close> and \<^verbatim>\<open>time.Duration\<close>, in nanoseconds\<close>
type_synonym go_int = "64 word"

text \<open>A runtime panic of Go: calling a method on a nil interface value.\<close>

datatype panic = NilPointerDereference

text \<open>
  The result of one \<^verbatim>\<open>Read\<close> on a connection: the connections of package
  \<^verbatim>\<open>net\<close> return an error, or at most as many bytes as the buffer holds.
\<close>

datatype read_result = ReadError | ReadBytes string

text \<open>
  A sink object (\<^verbatim>\<open>io.WriteCloser\<close>, \<^verbatim>\<open>BatchedWriter\<close>, \<^verbatim>\<open>net.Conn\<close>): the
  chunks written so far, whether it has been closed, how many writes it accepts
  before writes start to fail, the answers it will give to \<^verbatim>\<open>Read\<close>, and the
  size set by \<^verbatim>\<open>SetWriteBuffer\<close>.
\<close>

record sink =
  written :: "string list"
  isClosed :: bool
  capacity :: nat
  incoming :: "read_result list"
  writeBuffer :: go_int

text \<open>
  What the pipeline does to its surroundings besides writing to a sink: bytes that
  were formatted and discarded, messages handed to the drop fallback, and calls
  of \<^verbatim>\<open>net.Dial\<close> (protocol, address).
\<close>

datatype event = Discarded string | Dropped message | Dialed string string

text \<open>
  The store: the sink objects by handle, the outcomes of the coming calls of
  \<^verbatim>\<open>net.Dial\<close> (the connection it returns, or \<open>None\<close> for an error), the events
  so far, and the struct under consideration.
\<close>

record 'a world =
  sinks :: "handle \<Rightarrow> sink"
  nextHandle :: handle
  dials :: "sink option list"
  events :: "event list"
  this :: 'a

definition emit :: "event \<Rightarrow> 'a world \<Rightarrow> 'a world" where
  "emit e w = w\<lparr>events := events w @ [e]\<rparr>"

text \<open>\<^verbatim>\<open>Write\<close> on a sink: fails on a closed or exhausted sink, appends otherwise.\<close>

definition sink_Write :: "handle \<Rightarrow> string \<Rightarrow> 'a world \<Rightarrow> bool \<times> 'a world" where
  "sink_Write h bytes w =
     (let k = sinks w h in
      if isClosed k \<or> capacity k \<le> length (written k) then (False, w)
      else (True, w\<lparr>sinks := (sinks w)(h := k\<lparr>written := written k @ [bytes]\<rparr>)\<rparr>))"

definition sink_Close :: "handle \<Rightarrow> 'a world \<Rightarrow> 'a world" where
  "sink_Close h w = w\<lparr>sinks := (sinks w)(h := (sinks w h)\<lparr>isClosed := True\<rparr>)\<rparr>"

text \<open>
  \<^verbatim>\<open>Read(buf)\<close> with a buffer of \<open>n\<close> bytes: an error on a closed connection or
  when nothing is left, otherwise the next scripted answer. The connections that are
  read from are streams (tcp, unix): of an answer longer than the buffer the first
  \<open>n\<close> bytes are returned and the rest stays for the next \<^verbatim>\<open>Read\<close>.
\<close>

definition sink_Read :: "handle \<Rightarrow> nat \<Rightarrow> 'a world \<Rightarrow> read_result \<times> 'a world" where
  "sink_Read h n w =
     (let k = sinks w h in
      if isClosed k then (ReadError, w)
      else (case incoming k of
              [] \<Rightarrow> (ReadError, w)
            | ReadError # rs \<Rightarrow>
                (ReadError, w\<lparr>sinks := (sinks w)(h := k\<lparr>incoming := rs\<rparr>)\<rparr>)
            | ReadBytes bs # rs \<Rightarrow>
                (ReadBytes (take n bs),
                 w\<lparr>sinks := (sinks w)
                   (h := k\<lparr>incoming := (if n < length bs then ReadBytes (drop n bs) # rs else rs)\<rparr>)\<rparr>)))"

subsection \<open>MessageBatch\<close>

text \<open>
  Modelled from the spec: \<^verbatim>\<open>core.MessageBatch\<close> is not among the sources.
  Sections 3, 4.1 and 8 of the specification give a bounded ordered
  sequence of messages with capacity \<open>maxCount\<close>, a closed flag, the time of the last
  flush and the number of messages appended since.
\<close>

record MessageBatch =
  queue :: "message list"
  maxCount :: int
  closed :: bool
  lastFlushTime :: time
  messagesSinceFlush :: nat

datatype append_error = Full | Closed

text \<open>Modelled from the spec: a new batch is empty and open; its flush clock starts at its creation.\<close>

definition NewMessageBatch :: "int \<Rightarrow> time \<Rightarrow> MessageBatch" where
  "NewMessageBatch n now =
     \<lparr>queue = [], maxCount = n, closed = False, lastFlushTime = now, messagesSinceFlush = 0\<rparr>"

text \<open>
  Modelled from the spec: \<^verbatim>\<open>Append\<close> in its non-blocking form. A closed batch
  accepts nothing (\<open>Closed\<close>), a batch at capacity fails with \<open>Full\<close>, otherwise the
  message takes the next slot.
\<close>

definition Append :: "MessageBatch \<Rightarrow> message \<Rightarrow> append_error + MessageBatch" where
  "Append b msg =
     (if closed b then Inl Closed
      else if maxCount b \<le> int (length (queue b)) then Inl Full
      else Inr (b\<lparr>queue := queue b @ [msg], messagesSinceFlush := Suc (messagesSinceFlush b)\<rparr>))"

text \<open>Modelled from the spec: \<^verbatim>\<open>IsEmpty()\<close>, no message is buffered.\<close>

definition IsEmpty :: "MessageBatch \<Rightarrow> bool" where
  "IsEmpty b = (queue b = [])"

text \<open>
  Modelled from the spec: the threshold queries of section 8,
  ``true iff the number of messages appended since the last flush \<open>\<ge> n\<close>'' and
  ``true iff elapsed time since the last flush \<open>\<ge> d\<close>, independent of message count''.
\<close>

definition ReachedSizeThreshold :: "MessageBatch \<Rightarrow> int \<Rightarrow> bool" where
  "ReachedSizeThreshold b n = (n \<le> int (messagesSinceFlush b))"

definition ReachedTimeThreshold :: "MessageBatch \<Rightarrow> time \<Rightarrow> time \<Rightarrow> bool" where
  "ReachedTimeThreshold b now d = (d \<le> now - lastFlushTime b)"

text \<open>
  Calling the write function once per message of a snapshot, in order. A panic of the
  write function ends the run.
\<close>

fun write_each :: "(message \<Rightarrow> 's \<Rightarrow> panic + 's) \<Rightarrow> message list \<Rightarrow> 's \<Rightarrow> panic + 's" where
  "write_each writeFn [] s = Inr s"
| "write_each writeFn (m # ms) s =
     (case writeFn m s of Inl p \<Rightarrow> Inl p | Inr s' \<Rightarrow> write_each writeFn ms s')"

text \<open>The batch after its content has been taken for a flush: empty, counters reset.\<close>

definition flushed :: "time \<Rightarrow> MessageBatch \<Rightarrow> MessageBatch" where
  "flushed now b = b\<lparr>queue := [], lastFlushTime := now, messagesSinceFlush := 0\<rparr>"

text \<open>
  Modelled from the spec: \<^verbatim>\<open>Flush(writeFn)\<close> ``atomically takes a snapshot of all
  currently buffered messages (emptying the batch for new appends) and calls
  \<open>writeFn\<close> once per message, in original arrival order''. The batch is a field of
  the caller's struct: \<open>get\<close> reads that field and \<open>upd\<close> changes it.
\<close>

definition MessageBatch_Flush ::
  "('s \<Rightarrow> MessageBatch) \<Rightarrow> ((MessageBatch \<Rightarrow> MessageBatch) \<Rightarrow> 's \<Rightarrow> 's) \<Rightarrow> time \<Rightarrow>
   (message \<Rightarrow> 's \<Rightarrow> panic + 's) \<Rightarrow> 's \<Rightarrow> panic + 's" where
  "MessageBatch_Flush get upd now writeFn s =
     write_each writeFn (queue (get s)) (upd (flushed now) s)"

text \<open>
  Modelled from the spec: \<^verbatim>\<open>Close(writeFn, timeout)\<close> ``marks the batch closed (no
  further appends), then behaves like \<open>Flush\<close>'' and waits for the write path at most
  \<open>timeout\<close>; the writes of this model are complete when \<open>Flush\<close> returns, so the wait
  ends at once.
\<close>

definition MessageBatch_Close ::
  "('s \<Rightarrow> MessageBatch) \<Rightarrow> ((MessageBatch \<Rightarrow> MessageBatch) \<Rightarrow> 's \<Rightarrow> 's) \<Rightarrow> time \<Rightarrow>
   (message \<Rightarrow> 's \<Rightarrow> panic + 's) \<Rightarrow> time \<Rightarrow> 's \<Rightarrow> panic + 's" where
  "MessageBatch_Close get upd now writeFn timeout s =
     MessageBatch_Flush get upd now writeFn (upd (\<lambda>b. b\<lparr>closed := True\<rparr>) s)"

text \<open>
  Modelled from the spec: \<^verbatim>\<open>Close()\<close> without arguments, as \<^verbatim>\<open>producer.Socket\<close>
  calls it, only marks the batch closed; \<^verbatim>\<open>WaitForFlush(timeout)\<close> waits for a
  flush under way for at most \<open>timeout\<close>, and a flush of this model is complete when
  it returns.
\<close>

definition MessageBatch_Close0 :: "MessageBatch \<Rightarrow> MessageBatch" where
  "MessageBatch_Close0 b = b\<lparr>closed := True\<rparr>"

definition WaitForFlush :: "time \<Rightarrow> 's \<Rightarrow> 's" where
  "WaitForFlush timeout s = s"

text \<open>
  Modelled from the spec: \<^verbatim>\<open>AppendRetry(msg, trySend, isActive, onDrop)\<close>
  ``appends; if the batch is full, invokes \<open>trySend\<close> to make room, polling
  \<open>isActive\<close> to decide whether to keep retrying (active) or give up and reroute
  the message via \<open>onDrop\<close>''. A closed batch accepts nothing and the message is
  rerouted (section 7). The loop has no bound of its own: not returning is the value
  \<open>None\<close>.
\<close>

partial_function (option) AppendRetry ::
  "('s \<Rightarrow> MessageBatch) \<Rightarrow> ((MessageBatch \<Rightarrow> MessageBatch) \<Rightarrow> 's \<Rightarrow> 's) \<Rightarrow> message \<Rightarrow>
   ('s \<Rightarrow> panic + 's) \<Rightarrow> ('s \<Rightarrow> bool) \<Rightarrow> (message \<Rightarrow> 's \<Rightarrow> 's) \<Rightarrow> 's \<Rightarrow> (panic + 's) option" where
  "AppendRetry get upd msg trySend isActive onDrop s =
     (case Append (get s) msg of
        Inr b \<Rightarrow> Some (Inr (upd (\<lambda>_. b) s))
      | Inl Closed \<Rightarrow> Some (Inr (onDrop msg s))
      | Inl Full \<Rightarrow>
          if isActive s
          then (case trySend s of
                  Inl p \<Rightarrow> Some (Inl p)
                | Inr s' \<Rightarrow> AppendRetry get upd msg trySend isActive onDrop s')
          else Some (Inr (onDrop msg s)))"

declare AppendRetry.simps [code]

subsection \<open>WriterAssembly\<close>

text \<open>
  Modelled from the spec: \<^verbatim>\<open>core.WriterAssembly\<close> is not among the sources.
  Section 3 of the specification gives it a replaceable sink handle and an
  encoding chain, a pure function from a message to bytes (section 6). The
  optional validator and the error handler are closures of the producer that owns the
  assembly; they are arguments of \<open>WriterAssembly_Write\<close>.
\<close>

record WriterAssembly =
  asmWriter :: "handle option"
  formatter :: "message \<Rightarrow> string"

definition NewWriterAssembly :: "handle option \<Rightarrow> (message \<Rightarrow> string) \<Rightarrow> WriterAssembly" where
  "NewWriterAssembly writer modulator = \<lparr>asmWriter = writer, formatter = modulator\<rparr>"

definition WriterAssembly_SetWriter :: "handle \<Rightarrow> WriterAssembly \<Rightarrow> WriterAssembly" where
  "WriterAssembly_SetWriter h a = a\<lparr>asmWriter := Some h\<rparr>"

text \<open>
  Modelled from the spec: the drop fallback handed to the assembly at construction
  reroutes the message to its drop stream.
\<close>

definition tryFallback :: "message \<Rightarrow> 'a world \<Rightarrow> 'a world" where
  "tryFallback msg w = emit (Dropped msg) w"

text \<open>
  Modelled from the spec: on failure ``the assembly's default policy is to close and
  discard the current sink handle (forcing reconnection on next use)''; the message is
  treated as failed and goes to the drop fallback.
\<close>

definition failWrite ::
  "((WriterAssembly \<Rightarrow> WriterAssembly) \<Rightarrow> 'a \<Rightarrow> 'a) \<Rightarrow> handle \<Rightarrow> message \<Rightarrow> 'a world \<Rightarrow> 'a world" where
  "failWrite asm_upd h msg w =
     tryFallback msg
       ((sink_Close h w)\<lparr>this := asm_upd (\<lambda>a. a\<lparr>asmWriter := None\<rparr>) (this (sink_Close h w))\<rparr>)"

text \<open>
  Modelled from the spec: \<^verbatim>\<open>Write(msg)\<close> ``encodes \<open>msg\<close> through the formatter
  chain, writes the encoded bytes to the current sink, and, if a validator is
  configured, reads and checks a sink response''. It ``returns success, or invokes
  the error handler''; the handler's result says whether the message counts as
  delivered. The write is attempted once. Without a sink the message is failed at
  once (section 8: after the sink has been invalidated, the later messages of the
  flush are reported as failed).
\<close>

definition WriterAssembly_Write ::
  "('a \<Rightarrow> WriterAssembly) \<Rightarrow> ((WriterAssembly \<Rightarrow> WriterAssembly) \<Rightarrow> 'a \<Rightarrow> 'a) \<Rightarrow>
   ('a world \<Rightarrow> panic + bool \<times> 'a world) option \<Rightarrow> ('a world \<Rightarrow> panic + bool \<times> 'a world) option \<Rightarrow>
   message \<Rightarrow> 'a world \<Rightarrow> panic + 'a world" where
  "WriterAssembly_Write asm asm_upd validator errorHandler msg w =
     (case asmWriter (asm (this w)) of
        None \<Rightarrow> Inr (tryFallback msg w)
      | Some h \<Rightarrow>
          (case sink_Write h (formatter (asm (this w)) msg) w of (written_ok, w1) \<Rightarrow>
           (case (if written_ok
                  then (case validator of None \<Rightarrow> Inr (True, w1) | Some v \<Rightarrow> v w1)
                  else Inr (False, w1)) of
              Inl p \<Rightarrow> Inl p
            | Inr (valid, w2) \<Rightarrow>
                if valid then Inr w2
                else (case errorHandler of
                        None \<Rightarrow> Inr (failWrite asm_upd h msg w2)
                      | Some handleError \<Rightarrow>
                          (case handleError w2 of
                             Inl p \<Rightarrow> Inl p
                           | Inr (delivered, w3) \<Rightarrow>
                               if delivered then Inr w3 else Inr (failWrite asm_upd h msg w3))))))"

text \<open>
  Modelled from the spec: \<^verbatim>\<open>Flush(msg)\<close>, the degraded path, ``formats the message
  but discards the encoded bytes instead of writing them''.
\<close>

definition WriterAssembly_Flush :: "('a \<Rightarrow> WriterAssembly) \<Rightarrow> message \<Rightarrow> 'a world \<Rightarrow> panic + 'a world" where
  "WriterAssembly_Flush asm msg w = Inr (emit (Discarded (formatter (asm (this w)) msg)) w)"

subsection \<open>BatchedWriterAssembly (src/unnamed/part_000)\<close>

record BatchedWriterAssembly =
  Batch :: MessageBatch
  Created :: time
  writer :: "handle option"
  assembly :: WriterAssembly
  flushTimeout :: time
  batchTimeout :: time
  batchFlushCount :: int

text \<open>
  \<^verbatim>\<open>NewBatchedWriterAssembly\<close>: the fields the composite literal leaves out are
  Go's zero values, a nil writer and the zero time. The logger is left out.
\<close>

definition NewBatchedWriterAssembly ::
  "int \<Rightarrow> time \<Rightarrow> int \<Rightarrow> (message \<Rightarrow> string) \<Rightarrow> time \<Rightarrow> time \<Rightarrow> BatchedWriterAssembly" where
  "NewBatchedWriterAssembly batchMaxCount batchTimeout' batchFlushCount' modulator timeout now =
     \<lparr>Batch = NewMessageBatch batchMaxCount now,
      Created = 0,
      writer = None,
      assembly = NewWriterAssembly None modulator,
      flushTimeout = timeout,
      batchTimeout = batchTimeout',
      batchFlushCount = batchFlushCount'\<rparr>"

definition HasWriter :: "BatchedWriterAssembly \<Rightarrow> bool" where
  "HasWriter bwa = (writer bwa \<noteq> None)"

definition SetWriter :: "handle \<Rightarrow> time \<Rightarrow> BatchedWriterAssembly \<Rightarrow> BatchedWriterAssembly" where
  "SetWriter h now bwa = (bwa\<lparr>writer := Some h\<rparr>)\<lparr>Created := now\<rparr>"

definition UnsetWriter :: "BatchedWriterAssembly \<Rightarrow> BatchedWriterAssembly" where
  "UnsetWriter bwa = bwa\<lparr>writer := None\<rparr>"

definition GetWriter :: "BatchedWriterAssembly \<Rightarrow> handle option" where
  "GetWriter bwa = writer bwa"

definition GetWriterAndUnset :: "BatchedWriterAssembly \<Rightarrow> handle option \<times> BatchedWriterAssembly" where
  "GetWriterAndUnset bwa = (GetWriter bwa, UnsetWriter bwa)"

text \<open>The batch and the assembly as fields of the struct held in the store.\<close>

definition bwa_Batch :: "BatchedWriterAssembly world \<Rightarrow> MessageBatch" where
  "bwa_Batch w = Batch (this w)"

definition bwa_Batch_update ::
  "(MessageBatch \<Rightarrow> MessageBatch) \<Rightarrow> BatchedWriterAssembly world \<Rightarrow> BatchedWriterAssembly world" where
  "bwa_Batch_update f w = w\<lparr>this := (this w)\<lparr>Batch := f (Batch (this w))\<rparr>\<rparr>"

text \<open>
  The two write functions \<^verbatim>\<open>bwa.assembly.Write\<close> and \<^verbatim>\<open>bwa.assembly.Flush\<close>; the
  assembly of a BatchedWriterAssembly has neither validator nor error handler.
\<close>

definition bwa_assembly_Write :: "message \<Rightarrow> BatchedWriterAssembly world \<Rightarrow> panic + BatchedWriterAssembly world" where
  "bwa_assembly_Write = WriterAssembly_Write assembly assembly_update None None"

definition bwa_assembly_Flush :: "message \<Rightarrow> BatchedWriterAssembly world \<Rightarrow> panic + BatchedWriterAssembly world" where
  "bwa_assembly_Flush = WriterAssembly_Flush assembly"

definition BatchedWriterAssembly_Flush ::
  "time \<Rightarrow> BatchedWriterAssembly world \<Rightarrow> panic + BatchedWriterAssembly world" where
  "BatchedWriterAssembly_Flush now w =
     (case writer (this w) of
        Some h \<Rightarrow>
          MessageBatch_Flush bwa_Batch bwa_Batch_update now bwa_assembly_Write
            (w\<lparr>this := (this w)\<lparr>assembly := WriterAssembly_SetWriter h (assembly (this w))\<rparr>\<rparr>)
      | None \<Rightarrow> MessageBatch_Flush bwa_Batch bwa_Batch_update now bwa_assembly_Flush w)"

text \<open>
  \<^verbatim>\<open>Close\<close>: the batch is closed through either write function, then
  \<^verbatim>\<open>bwa.writer.Close()\<close> is called whatever \<^verbatim>\<open>bwa.writer\<close> holds; on a nil
  interface value that call panics.
\<close>

definition BatchedWriterAssembly_Close ::
  "time \<Rightarrow> BatchedWriterAssembly world \<Rightarrow> panic + BatchedWriterAssembly world" where
  "BatchedWriterAssembly_Close now w =
     (case (case writer (this w) of
              Some h \<Rightarrow>
                MessageBatch_Close bwa_Batch bwa_Batch_update now bwa_assembly_Write (flushTimeout (this w))
                  (w\<lparr>this := (this w)\<lparr>assembly := WriterAssembly_SetWriter h (assembly (this w))\<rparr>\<rparr>)
            | None \<Rightarrow>
                MessageBatch_Close bwa_Batch bwa_Batch_update now bwa_assembly_Flush (flushTimeout (this w)) w) of
        Inl p \<Rightarrow> Inl p
      | Inr w' \<Rightarrow>
          (case writer (this w') of
             None \<Rightarrow> Inl NilPointerDereference
           | Some h \<Rightarrow> Inr (sink_Close h w')))"

definition FlushOnTimeOut ::
  "time \<Rightarrow> BatchedWriterAssembly world \<Rightarrow> panic + BatchedWriterAssembly world" where
  "FlushOnTimeOut now w =
     (if ReachedTimeThreshold (Batch (this w)) now (batchTimeout (this w))
         \<or> ReachedSizeThreshold (Batch (this w)) (batchFlushCount (this w))
      then BatchedWriterAssembly_Flush now w
      else Inr w)"

subsection \<open>ProducerBase and the plugin configuration\<close>

text \<open>
  Modelled from the spec: \<^verbatim>\<open>core.ProducerBase\<close> is not among the sources.
  Section 4.4 of the specification gives the four states; the producer holds its
  shutdown timeout, its formatter, and the messages that were handed to it and are
  not yet sent. \<^verbatim>\<open>IsActive\<close> holds in state \<open>Active\<close> only.
\<close>

datatype PluginState = Active | Blocked | Stopping | Stopped

record ProducerBase =
  state :: PluginState
  shutdownTimeout :: time
  inflight :: "message list"
  modulator :: "message \<Rightarrow> string"

definition IsActive :: "ProducerBase \<Rightarrow> bool" where
  "IsActive p = (state p = Active)"

definition GetShutdownTimeout :: "ProducerBase \<Rightarrow> time" where
  "GetShutdownTimeout p = shutdownTimeout p"

definition GetFormatter :: "ProducerBase \<Rightarrow> message \<Rightarrow> string" where
  "GetFormatter p = modulator p"

text \<open>Modelled from the spec: \<^verbatim>\<open>Drop\<close> reroutes the message to its drop stream.\<close>

definition Drop :: "message \<Rightarrow> 'a world \<Rightarrow> 'a world" where
  "Drop m w = emit (Dropped m) w"

text \<open>Modelled from the spec: \<^verbatim>\<open>WorkerDone\<close> signals \<open>Stopped\<close>.\<close>

definition WorkerDone :: "ProducerBase \<Rightarrow> ProducerBase" where
  "WorkerDone p = p\<lparr>state := Stopped\<rparr>"

text \<open>
  Sending messages one after the other through a function that may not return.
\<close>

fun send_each :: "(message \<Rightarrow> 's \<Rightarrow> (panic + 's) option) \<Rightarrow> message list \<Rightarrow> 's \<Rightarrow> (panic + 's) option" where
  "send_each onMessage [] s = Some (Inr s)"
| "send_each onMessage (m # ms) s =
     (case onMessage m s of
        None \<Rightarrow> None
      | Some (Inl p) \<Rightarrow> Some (Inl p)
      | Some (Inr s') \<Rightarrow> send_each onMessage ms s')"

text \<open>
  Modelled from the spec: the plugin configuration of package \<^verbatim>\<open>core\<close> is not among
  the sources. Section 6 of the specification lists options with defaults: the
  configuration holds the options that are set, by name, and \<^verbatim>\<open>GetInt\<close> and
  \<^verbatim>\<open>GetString\<close> return the option's value, or the default given.
\<close>

record PluginConfig =
  ints :: "string \<rightharpoonup> go_int"
  strings :: "string \<rightharpoonup> string"

definition GetInt :: "PluginConfig \<Rightarrow> string \<Rightarrow> go_int \<Rightarrow> go_int" where
  "GetInt conf key dflt = (case ints conf key of None \<Rightarrow> dflt | Some v \<Rightarrow> v)"

definition GetString :: "PluginConfig \<Rightarrow> string \<Rightarrow> string \<Rightarrow> string" where
  "GetString conf key dflt = (case strings conf key of None \<Rightarrow> dflt | Some v \<Rightarrow> v)"

datatype config_error = ConfigError

text \<open>
  Functions of the repository that \<^verbatim>\<open>Socket.Configure\<close> calls and that are not among
  the sources; they are parameters of the model.
\<close>

record externals =
  ProducerBase_Configure :: "PluginConfig \<Rightarrow> ProducerBase \<Rightarrow> config_error + ProducerBase"
  Unescape :: "string \<Rightarrow> string"
  ParseAddress :: "string \<Rightarrow> string \<times> string"

text \<open>
  Modelled from the spec: \<^verbatim>\<open>shared.MinI\<close> is not among the sources; it clamps the
  flush count to the capacity (section 6), as the smaller of two Go ints.
\<close>

definition MinI :: "go_int \<Rightarrow> go_int \<Rightarrow> go_int" where
  "MinI a b = (if sint a < sint b then a else b)"

subsection \<open>The Socket producer (src/producer/null.go)\<close>

record Socket =
  base :: ProducerBase
  connection :: "handle option"
  batch :: MessageBatch
  assembly_sock :: WriterAssembly
  protocol :: string
  address :: string
  batchTimeout_sock :: go_int
  batchMaxCount :: go_int
  batchFlushCount_sock :: go_int
  bufferSizeByte :: go_int
  acknowledge :: string

text \<open>
  \<^verbatim>\<open>Configure\<close>. Go's \<^verbatim>\<open>/\<close> on ints truncates towards zero (\<open>sdiv\<close> on the signed value); \<^verbatim>\<open><<\<close> and
  \<^verbatim>\<open>*\<close> wrap around. \<^verbatim>\<open>time.Second\<close> is \<open>1000000000\<close>. The stop callback, the
  validator and the error handler that \<^verbatim>\<open>Configure\<close> registers are the functions
  \<open>Socket_close\<close>, \<open>Socket_validate\<close> and \<open>Socket_onWriteError\<close> below, which the
  model calls by name.
\<close>

definition Socket_Configure :: "externals \<Rightarrow> PluginConfig \<Rightarrow> time \<Rightarrow> Socket \<Rightarrow> config_error + Socket" where
  "Socket_Configure ext conf now sock =
     (case ProducerBase_Configure ext conf (base sock) of
        Inl err \<Rightarrow> Inl err
      | Inr b \<Rightarrow>
          (let maxc = GetInt conf ''BatchMaxCount'' 8192;
               flushc = MinI (GetInt conf ''BatchFlushCount'' (word_of_int (sint maxc sdiv 2))) maxc;
               timeout = GetInt conf ''BatchTimeoutSec'' 5 * 1000000000;
               bufsize = push_bit 10 (GetInt conf ''ConnectionBufferSizeKB'' (push_bit 10 1));
               ack = Unescape ext (GetString conf ''Acknowledge'' []);
               parsed = ParseAddress ext (GetString conf ''Address'' '':5880'');
               proto = (if snd parsed \<noteq> ''unix''
                        then (if ack \<noteq> [] then ''tcp'' else ''udp'')
                        else snd parsed)
           in Inr (sock\<lparr>base := b,
                        batchMaxCount := maxc,
                        batchFlushCount_sock := flushc,
                        batchTimeout_sock := timeout,
                        bufferSizeByte := bufsize,
                        acknowledge := ack,
                        address := fst parsed,
                        protocol := proto,
                        batch := NewMessageBatch (sint maxc) now,
                        assembly_sock := NewWriterAssembly (connection sock) (GetFormatter b)\<rparr>)))"

definition sock_batch :: "Socket world \<Rightarrow> MessageBatch" where
  "sock_batch w = batch (this w)"

definition sock_batch_update :: "(MessageBatch \<Rightarrow> MessageBatch) \<Rightarrow> Socket world \<Rightarrow> Socket world" where
  "sock_batch_update f w = w\<lparr>this := (this w)\<lparr>batch := f (batch (this w))\<rparr>\<rparr>"

text \<open>
  The buffer \<^verbatim>\<open>make([]byte, n)\<close> after a read of \<open>bs\<close>: the bytes read, then the
  zero bytes the buffer was made with.
\<close>

definition response :: "nat \<Rightarrow> string \<Rightarrow> string" where
  "response n bs = bs @ replicate (n - length bs) (CHR 0x00)"

definition Socket_validate :: "Socket world \<Rightarrow> panic + bool \<times> Socket world" where
  "Socket_validate w =
     (if acknowledge (this w) = [] then Inr (True, w)
      else (case connection (this w) of
              None \<Rightarrow> Inl NilPointerDereference
            | Some c \<Rightarrow>
                (case sink_Read c (length (acknowledge (this w))) w of
                   (ReadError, w') \<Rightarrow> Inr (False, w')
                 | (ReadBytes bs, w') \<Rightarrow>
                     Inr (response (length (acknowledge (this w))) bs = acknowledge (this w), w'))))"

definition Socket_onWriteError :: "Socket world \<Rightarrow> panic + bool \<times> Socket world" where
  "Socket_onWriteError w =
     (case connection (this w) of
        None \<Rightarrow> Inl NilPointerDereference
      | Some c \<Rightarrow> Inr (False, (sink_Close c w)\<lparr>this := (this w)\<lparr>connection := None\<rparr>\<rparr>))"

definition Socket_assembly_Write :: "message \<Rightarrow> Socket world \<Rightarrow> panic + Socket world" where
  "Socket_assembly_Write =
     WriterAssembly_Write assembly_sock assembly_sock_update (Some Socket_validate) (Some Socket_onWriteError)"

definition Socket_assembly_Flush :: "message \<Rightarrow> Socket world \<Rightarrow> panic + Socket world" where
  "Socket_assembly_Flush = WriterAssembly_Flush assembly_sock"

text \<open>
  \<^verbatim>\<open>net.Dial\<close>: the next outcome the store holds; a connection gets a fresh handle.
\<close>

definition net_Dial :: "string \<Rightarrow> string \<Rightarrow> 'a world \<Rightarrow> handle option \<times> 'a world" where
  "net_Dial proto addr w =
     (let w1 = emit (Dialed proto addr) w in
      case dials w1 of
        [] \<Rightarrow> (None, w1)
      | None # ds \<Rightarrow> (None, w1\<lparr>dials := ds\<rparr>)
      | Some k # ds \<Rightarrow>
          (Some (nextHandle w1),
           w1\<lparr>sinks := (sinks w1)(nextHandle w1 := k), nextHandle := Suc (nextHandle w1), dials := ds\<rparr>))"

definition SetWriteBuffer :: "handle \<Rightarrow> go_int \<Rightarrow> 'a world \<Rightarrow> 'a world" where
  "SetWriteBuffer h bytes w = w\<lparr>sinks := (sinks w)(h := (sinks w h)\<lparr>writeBuffer := bytes\<rparr>)\<rparr>"

definition Socket_sendBatch :: "time \<Rightarrow> Socket world \<Rightarrow> panic + Socket world" where
  "Socket_sendBatch now w =
     (let w1 = (case connection (this w) of
                  Some c \<Rightarrow> w
                | None \<Rightarrow>
                    (case net_Dial (protocol (this w)) (address (this w)) w of
                       (None, w') \<Rightarrow> w'
                     | (Some conn, w') \<Rightarrow>
                         (let w'' = SetWriteBuffer conn (bufferSizeByte (this w')) w'
                          in w''\<lparr>this := (this w'')
                                  \<lparr>connection := Some conn,
                                   assembly_sock := WriterAssembly_SetWriter conn (assembly_sock (this w''))\<rparr>\<rparr>)))
      in case connection (this w1) of
           None \<Rightarrow> Inr w1
         | Some c \<Rightarrow>
             if IsActive (base (this w1))
             then MessageBatch_Flush sock_batch sock_batch_update now Socket_assembly_Write w1
             else MessageBatch_Flush sock_batch sock_batch_update now Socket_assembly_Flush w1)"

definition Socket_sendBatchOnTimeOut :: "time \<Rightarrow> Socket world \<Rightarrow> panic + Socket world" where
  "Socket_sendBatchOnTimeOut now w =
     (if ReachedTimeThreshold (batch (this w)) now (sint (batchTimeout_sock (this w)))
         \<or> ReachedSizeThreshold (batch (this w)) (sint (batchFlushCount_sock (this w)))
      then Socket_sendBatch now w
      else Inr w)"

definition Socket_sendMessage :: "time \<Rightarrow> message \<Rightarrow> Socket world \<Rightarrow> (panic + Socket world) option" where
  "Socket_sendMessage now m w =
     AppendRetry sock_batch sock_batch_update m (Socket_sendBatch now)
       (\<lambda>w. IsActive (base (this w))) Drop w"

text \<open>
  Modelled from the spec: \<^verbatim>\<open>CloseGracefully(onMessage)\<close> hands the messages still
  in flight to \<open>onMessage\<close> until none is left or the shutdown deadline has passed,
  and says whether none is left. How many messages are handled before the deadline
  is for the surroundings to decide: the argument \<open>k\<close>.
\<close>

definition CloseGracefully ::
  "nat \<Rightarrow> (message \<Rightarrow> Socket world \<Rightarrow> (panic + Socket world) option) \<Rightarrow> Socket world \<Rightarrow>
   (panic + bool \<times> Socket world) option" where
  "CloseGracefully k onMessage w =
     (let pending = inflight (base (this w));
          w0 = w\<lparr>this := (this w)\<lparr>base := (base (this w))\<lparr>inflight := drop k pending\<rparr>\<rparr>\<rparr>
      in case send_each onMessage (take k pending) w0 of
           None \<Rightarrow> None
         | Some (Inl p) \<Rightarrow> Some (Inl p)
         | Some (Inr w') \<Rightarrow> Some (Inr (length pending \<le> k, w')))"

text \<open>
  \<^verbatim>\<open>close\<close>, in the three parts of its body. First the flush to the regular socket
  (lines 266 to 271 of the Socket source).
\<close>

definition close_graceful :: "nat \<Rightarrow> time \<Rightarrow> Socket world \<Rightarrow> (panic + Socket world) option" where
  "close_graceful k now w =
     (case CloseGracefully k (Socket_sendMessage now) w of
        None \<Rightarrow> None
      | Some (Inl p) \<Rightarrow> Some (Inl p)
      | Some (Inr (graceful, w1)) \<Rightarrow>
          if graceful
          then (case Socket_sendBatch now (sock_batch_update MessageBatch_Close0 w1) of
                  Inl p \<Rightarrow> Some (Inl p)
                | Inr w2 \<Rightarrow> Some (Inr (WaitForFlush (GetShutdownTimeout (base (this w2))) w2)))
          else Some (Inr w1))"

text \<open>Then the drop of all data that is still in the buffer (lines 273 to 278).\<close>

definition close_drop :: "time \<Rightarrow> Socket world \<Rightarrow> panic + Socket world" where
  "close_drop now w =
     (if \<not> IsEmpty (batch (this w))
      then (case MessageBatch_Flush sock_batch sock_batch_update now Socket_assembly_Flush
                   (sock_batch_update MessageBatch_Close0 w) of
              Inl p \<Rightarrow> Inl p
            | Inr w' \<Rightarrow> Inr (WaitForFlush (GetShutdownTimeout (base (this w'))) w'))
      else Inr w)"

text \<open>Last the deferred function (lines 259 to 264).\<close>

definition close_deferred :: "Socket world \<Rightarrow> Socket world" where
  "close_deferred w =
     (let w1 = (case connection (this w) of None \<Rightarrow> w | Some c \<Rightarrow> sink_Close c w)
      in w1\<lparr>this := (this w1)\<lparr>base := WorkerDone (base (this w1))\<rparr>\<rparr>)"

text \<open>
  A panic in the body leaves through the deferred function and goes on as a panic.
\<close>

definition Socket_close :: "nat \<Rightarrow> time \<Rightarrow> Socket world \<Rightarrow> (panic + Socket world) option" where
  "Socket_close k now w =
     (case close_graceful k now w of
        None \<Rightarrow> None
      | Some (Inl p) \<Rightarrow> Some (Inl p)
      | Some (Inr w1) \<Rightarrow>
          (case close_drop now w1 of
             Inl p \<Rightarrow> Some (Inl p)
           | Inr w2 \<Rightarrow> Some (Inr (close_deferred w2))))"

text \<open>
  The state in which \<^verbatim>\<open>Flush\<close> hands the batch to \<^verbatim>\<open>assembly.Write\<close>: the
  writer installed in the assembly, the batch emptied.
\<close>

definition install :: "handle \<Rightarrow> time \<Rightarrow> BatchedWriterAssembly world \<Rightarrow> BatchedWriterAssembly world" where
  "install h now w =
     bwa_Batch_update (flushed now)
       (w\<lparr>this := (this w)\<lparr>assembly := WriterAssembly_SetWriter h (assembly (this w))\<rparr>\<rparr>)"

text \<open>How many of \<open>n\<close> writes a sink takes before a write fails.\<close>

definition accepted :: "sink \<Rightarrow> nat \<Rightarrow> nat" where
  "accepted k n = (if isClosed k then 0 else min n (capacity k - length (written k)))"

text \<open>
  The Socket producer after a write on the connection \<open>c\<close> has failed for the message \<open>m\<close>:
  the connection closed and cleared, the assembly without a sink, the message handed to
  the drop fallback.
\<close>

definition invalidated :: "handle \<Rightarrow> message \<Rightarrow> Socket world \<Rightarrow> Socket world" where
  "invalidated c m w =
     w\<lparr>sinks := (sinks w)(c := (sinks w c)\<lparr>isClosed := True\<rparr>),
       this := (this w)\<lparr>connection := None,
                        assembly_sock := (assembly_sock (this w))\<lparr>asmWriter := None\<rparr>\<rparr>,
       events := events w @ [Dropped m]\<rparr>"

text \<open>
  A run of calls of \<^verbatim>\<open>Append\<close> and \<^verbatim>\<open>AppendRetry\<close> on the batch of one
  producer. A plain \<^verbatim>\<open>Append\<close> that fails returns its error to the caller and leaves
  the batch as it was.
\<close>

datatype append_call = ByAppend message | ByAppendRetry message

fun call_message :: "append_call \<Rightarrow> message" where
  "call_message (ByAppend m) = m"
| "call_message (ByAppendRetry m) = m"

fun run_appends ::
  "('s \<Rightarrow> MessageBatch) \<Rightarrow> ((MessageBatch \<Rightarrow> MessageBatch) \<Rightarrow> 's \<Rightarrow> 's) \<Rightarrow>
   ('s \<Rightarrow> panic + 's) \<Rightarrow> ('s \<Rightarrow> bool) \<Rightarrow> (message \<Rightarrow> 's \<Rightarrow> 's) \<Rightarrow>
   append_call list \<Rightarrow> 's \<Rightarrow> (panic + 's) option" where
  "run_appends get upd trySend isActive onDrop [] s = Some (Inr s)"
| "run_appends get upd trySend isActive onDrop (ByAppend m # cs) s =
     (case Append (get s) m of
        Inl e \<Rightarrow> run_appends get upd trySend isActive onDrop cs s
      | Inr b \<Rightarrow> run_appends get upd trySend isActive onDrop cs (upd (\<lambda>_. b) s))"
| "run_appends get upd trySend isActive onDrop (ByAppendRetry m # cs) s =
     (case AppendRetry get upd m trySend isActive onDrop s of
        None \<Rightarrow> None
      | Some (Inl p) \<Rightarrow> Some (Inl p)
      | Some (Inr s') \<Rightarrow> run_appends get upd trySend isActive onDrop cs s')"

subsection \<open>Concrete objects\<close>

definition open_sink :: "nat \<Rightarrow> sink" where
  "open_sink c = \<lparr>written = [], isClosed = False, capacity = c, incoming = [], writeBuffer = 0\<rparr>"

definition msg :: "string \<Rightarrow> nat \<Rightarrow> message" where
  "msg p n = \<lparr>payload = p, streamID = 1, sequence = n, dropStreamID = 0\<rparr>"

text \<open>
  An assembly with capacity 4, flush count 2 and a batch timeout of 5, holding three
  messages, no writer set; every sink of the store takes one write.
\<close>

definition example_bwa :: "BatchedWriterAssembly world" where
  "example_bwa =
     \<lparr>sinks = (\<lambda>_. open_sink 1), nextHandle = 1, dials = [], events = [],
      this = (NewBatchedWriterAssembly 4 5 2 payload 0 0)
               \<lparr>Batch := \<lparr>queue = [msg ''a'' 1, msg ''b'' 2, msg ''c'' 3], maxCount = 4, closed = False,
                          lastFlushTime = 0, messagesSinceFlush = 3\<rparr>\<rparr>\<rparr>"

text \<open>
  A Socket producer with capacity 2 and no acknowledgement, active and not connected,
  on a store whose dialling fails and whose sinks take no write.
\<close>

definition example_socket :: Socket where
  "example_socket =
     \<lparr>base = \<lparr>state = Active, shutdownTimeout = 0, inflight = [], modulator = payload\<rparr>,
      connection = None,
      batch = NewMessageBatch 2 0,
      assembly_sock = NewWriterAssembly None payload,
      protocol = ''udp'',
      address = '':5880'',
      batchTimeout_sock = 5000000000,
      batchMaxCount = 2,
      batchFlushCount_sock = 1,
      bufferSizeByte = 1048576,
      acknowledge = []\<rparr>"

definition example_sock :: "Socket world" where
  "example_sock =
     \<lparr>sinks = (\<lambda>_. open_sink 0), nextHandle = 1, dials = [], events = [], this = example_socket\<rparr>"

text \<open>
  The same producer after shutdown has been requested: state \<open>Stopping\<close>, shutdown
  timeout 0, capacity 10, the batch holding \<open>ms\<close>.
\<close>

definition stopping :: "message list \<Rightarrow> Socket world" where
  "stopping ms =
     example_sock\<lparr>this := example_socket
       \<lparr>base := (base example_socket)\<lparr>state := Stopping\<rparr>,
        batch := (NewMessageBatch 10 0)\<lparr>queue := ms, messagesSinceFlush := length ms\<rparr>\<rparr>\<rparr>"

definition ten :: "message list" where
  "ten = [msg ''m0'' 0, msg ''m1'' 1, msg ''m2'' 2, msg ''m3'' 3, msg ''m4'' 4,
          msg ''m5'' 5, msg ''m6'' 6, msg ''m7'' 7, msg ''m8'' 8, msg ''m9'' 9]"

text \<open>
  The example producer connected through handle 0, its batch holding \<open>ms\<close>; the
  sinks of the example store take no write.
\<close>

definition connected :: "message list \<Rightarrow> Socket world" where
  "connected ms =
     example_sock\<lparr>this := example_socket
       \<lparr>connection := Some 0,
        assembly_sock := WriterAssembly_SetWriter 0 (assembly_sock example_socket),
        batch := (NewMessageBatch 2 0)\<lparr>queue := ms, messagesSinceFlush := length ms\<rparr>\<rparr>\<rparr>"

text \<open>
  The same producer expecting the acknowledgement \<open>ack\<close>, on a store whose
  connections answer the reads as \<open>answers\<close> says.
\<close>

definition acknowledging :: "string \<Rightarrow> read_result list \<Rightarrow> Socket world" where
  "acknowledging ack answers =
     (connected [])\<lparr>sinks := (\<lambda>_. (open_sink 1)\<lparr>incoming := answers\<rparr>),
                    this := (this (connected []))\<lparr>acknowledge := ack\<rparr>\<rparr>"

text \<open>
  Surroundings in which \<^verbatim>\<open>ProducerBase.Configure\<close> succeeds, and a configuration
  that sets \<^verbatim>\<open>BatchMaxCount\<close> to 0.
\<close>

definition accepting :: externals where
  "accepting = \<lparr>ProducerBase_Configure = (\<lambda>conf b. Inr b), Unescape = (\<lambda>s. s),
                 ParseAddress = (\<lambda>s. (s, ''tcp''))\<rparr>"

definition zero_capacity :: PluginConfig where
  "zero_capacity = \<lparr>ints = [''BatchMaxCount'' \<mapsto> 0], strings = Map.empty\<rparr>"

section \<open>Properties\<close>

subsection \<open>Setting and clearing the writer\<close>

text \<open>
  C10. \<^verbatim>\<open>SetWriter(w)\<close> stores \<open>w\<close> and sets \<open>Created\<close> to the current time;
  \<^verbatim>\<open>UnsetWriter()\<close> and \<^verbatim>\<open>GetWriterAndUnset()\<close> clear the writer field and
  nothing else: afterwards \<open>HasWriter\<close> is false, \<open>GetWriterAndUnset\<close> has returned
  the writer that was set, and \<open>Created\<close>, the batch and every other field are as
  before.
\<close>

theorem writer_field_frame:
  "SetWriter h now bwa = bwa\<lparr>writer := Some h, Created := now\<rparr>
   \<and> GetWriter (SetWriter h now bwa) = Some h
   \<and> HasWriter (SetWriter h now bwa)
   \<and> UnsetWriter bwa = bwa\<lparr>writer := None\<rparr>
   \<and> \<not> HasWriter (UnsetWriter bwa)
   \<and> GetWriterAndUnset bwa = (writer bwa, bwa\<lparr>writer := None\<rparr>)
   \<and> \<not> HasWriter (snd (GetWriterAndUnset bwa))
   \<and> fst (GetWriterAndUnset (SetWriter h now bwa)) = Some h
   \<and> Created (UnsetWriter bwa) = Created bwa
   \<and> Batch (UnsetWriter bwa) = Batch bwa
   \<and> assembly (UnsetWriter bwa) = assembly bwa
   \<and> flushTimeout (UnsetWriter bwa) = flushTimeout bwa
   \<and> batchTimeout (UnsetWriter bwa) = batchTimeout bwa
   \<and> batchFlushCount (UnsetWriter bwa) = batchFlushCount bwa
   \<and> snd (GetWriterAndUnset bwa) = UnsetWriter bwa"
  by (simp add: SetWriter_def UnsetWriter_def GetWriter_def GetWriterAndUnset_def HasWriter_def)

subsection \<open>Facts about the concrete objects\<close>

lemma example_bwa_simps:
  "writer (this example_bwa) = None"
  "queue (Batch (this example_bwa)) = [msg ''a'' 1, msg ''b'' 2, msg ''c'' 3]"
  "events example_bwa = []"
  "sinks example_bwa h = open_sink 1"
  "formatter (assembly (this example_bwa)) = payload"
  "batchTimeout (this example_bwa) = 5"
  "batchFlushCount (this example_bwa) = 2"
  "lastFlushTime (Batch (this example_bwa)) = 0"
  "messagesSinceFlush (Batch (this example_bwa)) = 3"
  by (simp_all add: example_bwa_def NewBatchedWriterAssembly_def NewWriterAssembly_def)

subsection \<open>Writing a snapshot through the assembly of a BatchedWriterAssembly\<close>

lemma bwa_Write_None:
  "asmWriter (assembly (this w)) = None \<Longrightarrow> bwa_assembly_Write m w = Inr (emit (Dropped m) w)"
  by (simp add: bwa_assembly_Write_def WriterAssembly_Write_def tryFallback_def)

lemma write_each_bwa_Write_None:
  "asmWriter (assembly (this w)) = None \<Longrightarrow>
   write_each bwa_assembly_Write ms w = Inr (w\<lparr>events := events w @ map Dropped ms\<rparr>)"
  by (induction ms arbitrary: w) (simp_all add: bwa_Write_None emit_def)

lemma bwa_Write_ok:
  "asmWriter (assembly (this w)) = Some h \<Longrightarrow> \<not> isClosed (sinks w h) \<Longrightarrow>
   length (written (sinks w h)) < capacity (sinks w h) \<Longrightarrow>
   bwa_assembly_Write m w =
     Inr (w\<lparr>sinks := (sinks w)(h := (sinks w h)\<lparr>written := written (sinks w h) @ [formatter (assembly (this w)) m]\<rparr>)\<rparr>)"
  by (simp add: bwa_assembly_Write_def WriterAssembly_Write_def sink_Write_def Let_def)

lemma bwa_Write_fail:
  "asmWriter (assembly (this w)) = Some h \<Longrightarrow>
   isClosed (sinks w h) \<or> capacity (sinks w h) \<le> length (written (sinks w h)) \<Longrightarrow>
   bwa_assembly_Write m w =
     Inr (w\<lparr>sinks := (sinks w)(h := (sinks w h)\<lparr>isClosed := True\<rparr>),
            this := (this w)\<lparr>assembly := (assembly (this w))\<lparr>asmWriter := None\<rparr>\<rparr>,
            events := events w @ [Dropped m]\<rparr>)"
  by (auto simp add: bwa_assembly_Write_def WriterAssembly_Write_def sink_Write_def Let_def
      failWrite_def tryFallback_def emit_def sink_Close_def)

lemma write_each_bwa_Write_Some:
  "asmWriter (assembly (this w)) = Some h \<Longrightarrow>
   \<exists>w'. write_each bwa_assembly_Write ms w = Inr w'
      \<and> written (sinks w' h) =
          written (sinks w h) @ map (formatter (assembly (this w))) (take (accepted (sinks w h) (length ms)) ms)
      \<and> events w' = events w @ map Dropped (drop (accepted (sinks w h) (length ms)) ms)
      \<and> Batch (this w') = Batch (this w)
      \<and> writer (this w') = writer (this w)
      \<and> (\<forall>h'. h' \<noteq> h \<longrightarrow> sinks w' h' = sinks w h')"
proof (induction ms arbitrary: w)
  case Nil
  then show ?case by (simp add: accepted_def)
next
  case (Cons m ms)
  show ?case
  proof (cases "isClosed (sinks w h) \<or> capacity (sinks w h) \<le> length (written (sinks w h))")
    case True
    let ?w1 = "w\<lparr>sinks := (sinks w)(h := (sinks w h)\<lparr>isClosed := True\<rparr>),
            this := (this w)\<lparr>assembly := (assembly (this w))\<lparr>asmWriter := None\<rparr>\<rparr>,
            events := events w @ [Dropped m]\<rparr>"
    have step: "bwa_assembly_Write m w = Inr ?w1"
      using Cons.prems True by (rule bwa_Write_fail)
    have gone: "asmWriter (assembly (this ?w1)) = None"
      by simp
    have none: "accepted (sinks w h) (Suc (length ms)) = 0"
      using True by (auto simp: accepted_def)
    show ?thesis
      by (simp add: step write_each_bwa_Write_None [OF gone] none)
  next
    case False
    let ?w1 = "w\<lparr>sinks := (sinks w)(h := (sinks w h)\<lparr>written := written (sinks w h) @ [formatter (assembly (this w)) m]\<rparr>)\<rparr>"
    have step: "bwa_assembly_Write m w = Inr ?w1"
      using Cons.prems False by (intro bwa_Write_ok) auto
    have kept: "asmWriter (assembly (this ?w1)) = Some h"
      using Cons.prems by simp
    have one_more: "accepted (sinks w h) (Suc (length ms)) = Suc (accepted (sinks ?w1 h) (length ms))"
      using False by (auto simp: accepted_def)
    from Cons.IH [OF kept] obtain w' where rest:
      "write_each bwa_assembly_Write ms ?w1 = Inr w'"
      "written (sinks w' h) =
         written (sinks ?w1 h) @ map (formatter (assembly (this ?w1))) (take (accepted (sinks ?w1 h) (length ms)) ms)"
      "events w' = events ?w1 @ map Dropped (drop (accepted (sinks ?w1 h) (length ms)) ms)"
      "Batch (this w') = Batch (this ?w1)"
      "writer (this w') = writer (this ?w1)"
      "\<forall>h'. h' \<noteq> h \<longrightarrow> sinks w' h' = sinks ?w1 h'"
      by blast
    show ?thesis
      using rest by (simp add: step one_more)
  qed
qed

lemma write_each_bwa_Flush:
  "write_each bwa_assembly_Flush ms w =
     Inr (w\<lparr>events := events w @ map (\<lambda>m. Discarded (formatter (assembly (this w)) m)) ms\<rparr>)"
  by (induction ms arbitrary: w) (simp_all add: bwa_assembly_Flush_def WriterAssembly_Flush_def emit_def)

subsection \<open>Flush of a BatchedWriterAssembly\<close>

text \<open>
  C5. Whatever the state of a BatchedWriterAssembly, \<^verbatim>\<open>Flush()\<close> drains the batch
  through \<^verbatim>\<open>WriterAssembly.Write\<close>, after installing the current sink, when a
  writer is set, and through \<^verbatim>\<open>WriterAssembly.Flush\<close>, the drop path, when none
  is set. In both cases the call returns and leaves the batch empty: with a writer
  every buffered message has been written to the sink, in order, or handed to the
  drop fallback; without one every buffered message has been formatted and discarded.
\<close>

theorem Flush_drains_batch:
  "(writer (this w) = Some h \<longrightarrow>
      BatchedWriterAssembly_Flush now w
        = write_each bwa_assembly_Write (queue (Batch (this w))) (install h now w)
      \<and> (\<exists>w'. BatchedWriterAssembly_Flush now w = Inr w'
            \<and> IsEmpty (Batch (this w'))
            \<and> written (sinks w' h) =
                written (sinks w h) @ map (formatter (assembly (this w)))
                  (take (accepted (sinks w h) (length (queue (Batch (this w))))) (queue (Batch (this w))))
            \<and> events w' =
                events w @ map Dropped
                  (drop (accepted (sinks w h) (length (queue (Batch (this w))))) (queue (Batch (this w))))))
   \<and> (writer (this w) = None \<longrightarrow>
      BatchedWriterAssembly_Flush now w
        = write_each bwa_assembly_Flush (queue (Batch (this w))) (bwa_Batch_update (flushed now) w)
      \<and> (\<exists>w'. BatchedWriterAssembly_Flush now w = Inr w'
            \<and> IsEmpty (Batch (this w'))
            \<and> sinks w' = sinks w
            \<and> events w' =
                events w @ map (\<lambda>m. Discarded (formatter (assembly (this w)) m)) (queue (Batch (this w)))))"
proof (intro conjI impI)
  assume set: "writer (this w) = Some h"
  show route: "BatchedWriterAssembly_Flush now w
        = write_each bwa_assembly_Write (queue (Batch (this w))) (install h now w)"
    by (simp add: BatchedWriterAssembly_Flush_def set MessageBatch_Flush_def install_def bwa_Batch_def)
  have installed: "asmWriter (assembly (this (install h now w))) = Some h"
    by (simp add: install_def bwa_Batch_update_def WriterAssembly_SetWriter_def)
  from write_each_bwa_Write_Some [OF installed, of "queue (Batch (this w))"]
  obtain w' where w':
    "write_each bwa_assembly_Write (queue (Batch (this w))) (install h now w) = Inr w'"
    "written (sinks w' h) =
       written (sinks (install h now w) h) @ map (formatter (assembly (this (install h now w))))
        (take (accepted (sinks (install h now w) h) (length (queue (Batch (this w))))) (queue (Batch (this w))))"
    "events w' = events (install h now w) @ map Dropped
        (drop (accepted (sinks (install h now w) h) (length (queue (Batch (this w))))) (queue (Batch (this w))))"
    "Batch (this w') = Batch (this (install h now w))"
    by blast
  have same: "sinks (install h now w) = sinks w" "events (install h now w) = events w"
    "formatter (assembly (this (install h now w))) = formatter (assembly (this w))"
    "queue (Batch (this (install h now w))) = []"
    by (simp_all add: install_def bwa_Batch_update_def WriterAssembly_SetWriter_def flushed_def)
  show "\<exists>w'. BatchedWriterAssembly_Flush now w = Inr w'
            \<and> IsEmpty (Batch (this w'))
            \<and> written (sinks w' h) =
                written (sinks w h) @ map (formatter (assembly (this w)))
                  (take (accepted (sinks w h) (length (queue (Batch (this w))))) (queue (Batch (this w))))
            \<and> events w' =
                events w @ map Dropped
                  (drop (accepted (sinks w h) (length (queue (Batch (this w))))) (queue (Batch (this w))))"
    using w' by (simp add: route same IsEmpty_def)
next
  assume unset: "writer (this w) = None"
  show route: "BatchedWriterAssembly_Flush now w
        = write_each bwa_assembly_Flush (queue (Batch (this w))) (bwa_Batch_update (flushed now) w)"
    by (simp add: BatchedWriterAssembly_Flush_def unset MessageBatch_Flush_def bwa_Batch_def)
  show "\<exists>w'. BatchedWriterAssembly_Flush now w = Inr w'
            \<and> IsEmpty (Batch (this w'))
            \<and> sinks w' = sinks w
            \<and> events w' =
                events w @ map (\<lambda>m. Discarded (formatter (assembly (this w)) m)) (queue (Batch (this w)))"
    by (simp add: route write_each_bwa_Flush bwa_Batch_update_def flushed_def IsEmpty_def)
qed

theorem Flush_drains_batch_witness:
  "writer (this (example_bwa\<lparr>this := SetWriter 0 1 (this example_bwa)\<rparr>)) = Some 0
   \<and> (\<exists>w'. BatchedWriterAssembly_Flush 7 (example_bwa\<lparr>this := SetWriter 0 1 (this example_bwa)\<rparr>) = Inr w'
        \<and> IsEmpty (Batch (this w'))
        \<and> written (sinks w' 0) = [''a'']
        \<and> events w' = [Dropped (msg ''b'' 2), Dropped (msg ''c'' 3)])
   \<and> writer (this example_bwa) = None
   \<and> (\<exists>w'. BatchedWriterAssembly_Flush 7 example_bwa = Inr w'
        \<and> IsEmpty (Batch (this w'))
        \<and> events w' = [Discarded ''a'', Discarded ''b'', Discarded ''c''])"
proof -
  let ?w1 = "example_bwa\<lparr>this := SetWriter 0 1 (this example_bwa)\<rparr>"
  have a: "writer (this ?w1) = Some 0"
    by (simp add: SetWriter_def)
  have b: "writer (this example_bwa) = None"
    by (simp add: example_bwa_simps)
  note A = Flush_drains_batch [of ?w1 0 7, THEN conjunct1, THEN mp, OF a, THEN conjunct2]
  note B = Flush_drains_batch [of example_bwa 0 7, THEN conjunct2, THEN mp, OF b, THEN conjunct2]
  show ?thesis
    using a b A B
    by (auto simp add: example_bwa_simps SetWriter_def accepted_def open_sink_def msg_def)
qed

subsection \<open>The periodic tick\<close>

lemma bwa_Flush_batch:
  "\<exists>w'. BatchedWriterAssembly_Flush now w = Inr w' \<and> Batch (this w') = flushed now (Batch (this w))"
proof (cases "writer (this w)")
  case None
  then show ?thesis
    by (simp add: BatchedWriterAssembly_Flush_def MessageBatch_Flush_def write_each_bwa_Flush
        bwa_Batch_update_def bwa_Batch_def)
next
  case (Some h)
  have installed: "asmWriter (assembly (this (install h now w))) = Some h"
    by (simp add: install_def bwa_Batch_update_def WriterAssembly_SetWriter_def)
  from write_each_bwa_Write_Some [OF installed, of "queue (Batch (this w))"]
  obtain w' where "write_each bwa_assembly_Write (queue (Batch (this w))) (install h now w) = Inr w'"
    "Batch (this w') = Batch (this (install h now w))"
    by blast
  then show ?thesis
    using Some
    by (simp add: BatchedWriterAssembly_Flush_def MessageBatch_Flush_def install_def bwa_Batch_def
        bwa_Batch_update_def)
qed

text \<open>
  C4. \<^verbatim>\<open>FlushOnTimeOut()\<close> flushes if and only if the time threshold (the time since
  the last flush is at least \<open>batchTimeout\<close>) or the size threshold (the messages
  since the last flush are at least \<open>batchFlushCount\<close>) has been reached: then it
  is \<^verbatim>\<open>Flush()\<close>, which returns with the batch emptied and its counters reset; if
  neither holds it does nothing and the batch, like everything else, is unchanged.
  \<^verbatim>\<open>Socket.sendBatchOnTimeOut\<close> calls \<^verbatim>\<open>sendBatch\<close> under the same condition
  and does nothing otherwise.
\<close>

theorem FlushOnTimeOut_iff_threshold:
  "(batchTimeout (this w) \<le> now - lastFlushTime (Batch (this w))
      \<or> batchFlushCount (this w) \<le> int (messagesSinceFlush (Batch (this w)))
    \<longrightarrow> FlushOnTimeOut now w = BatchedWriterAssembly_Flush now w
        \<and> (\<exists>w'. FlushOnTimeOut now w = Inr w' \<and> Batch (this w') = flushed now (Batch (this w))))
   \<and> (\<not> (batchTimeout (this w) \<le> now - lastFlushTime (Batch (this w))
          \<or> batchFlushCount (this w) \<le> int (messagesSinceFlush (Batch (this w))))
    \<longrightarrow> FlushOnTimeOut now w = Inr w)
   \<and> (sint (batchTimeout_sock (this v)) \<le> now - lastFlushTime (batch (this v))
      \<or> sint (batchFlushCount_sock (this v)) \<le> int (messagesSinceFlush (batch (this v)))
    \<longrightarrow> Socket_sendBatchOnTimeOut now v = Socket_sendBatch now v)
   \<and> (\<not> (sint (batchTimeout_sock (this v)) \<le> now - lastFlushTime (batch (this v))
          \<or> sint (batchFlushCount_sock (this v)) \<le> int (messagesSinceFlush (batch (this v))))
    \<longrightarrow> Socket_sendBatchOnTimeOut now v = Inr v)"
  using bwa_Flush_batch [of now w]
  by (simp add: FlushOnTimeOut_def Socket_sendBatchOnTimeOut_def ReachedTimeThreshold_def
      ReachedSizeThreshold_def)

theorem FlushOnTimeOut_iff_threshold_witness:
  "batchFlushCount (this example_bwa) \<le> int (messagesSinceFlush (Batch (this example_bwa)))
   \<and> FlushOnTimeOut 1 example_bwa = BatchedWriterAssembly_Flush 1 example_bwa
   \<and> (\<exists>w'. FlushOnTimeOut 1 example_bwa = Inr w'
         \<and> Batch (this w') = flushed 1 (Batch (this example_bwa)))
   \<and> \<not> (batchTimeout (this (bwa_Batch_update (flushed 0) example_bwa))
            \<le> 1 - lastFlushTime (Batch (this (bwa_Batch_update (flushed 0) example_bwa)))
          \<or> batchFlushCount (this (bwa_Batch_update (flushed 0) example_bwa))
            \<le> int (messagesSinceFlush (Batch (this (bwa_Batch_update (flushed 0) example_bwa)))))
   \<and> FlushOnTimeOut 1 (bwa_Batch_update (flushed 0) example_bwa)
       = Inr (bwa_Batch_update (flushed 0) example_bwa)
   \<and> sint (batchFlushCount_sock (this (connected [msg ''a'' 1])))
        \<le> int (messagesSinceFlush (batch (this (connected [msg ''a'' 1]))))
   \<and> Socket_sendBatchOnTimeOut 1 (connected [msg ''a'' 1]) = Socket_sendBatch 1 (connected [msg ''a'' 1])
   \<and> \<not> (sint (batchTimeout_sock (this (connected [])))
            \<le> 1 - lastFlushTime (batch (this (connected [])))
          \<or> sint (batchFlushCount_sock (this (connected [])))
            \<le> int (messagesSinceFlush (batch (this (connected [])))))
   \<and> Socket_sendBatchOnTimeOut 1 (connected []) = Inr (connected [])"
proof -
  have sock: "batchTimeout_sock (this (connected ms)) = 5000000000"
    "batchFlushCount_sock (this (connected ms)) = 1"
    "lastFlushTime (batch (this (connected ms))) = 0"
    "messagesSinceFlush (batch (this (connected ms))) = length ms" for ms
    by (simp_all add: connected_def example_sock_def example_socket_def NewMessageBatch_def)
  have reached: "batchFlushCount (this example_bwa) \<le> int (messagesSinceFlush (Batch (this example_bwa)))"
    and reached_sock: "sint (batchFlushCount_sock (this (connected [msg ''a'' 1])))
        \<le> int (messagesSinceFlush (batch (this (connected [msg ''a'' 1]))))"
    by (simp_all add: example_bwa_simps sock)
  have idle: "\<not> (batchTimeout (this (bwa_Batch_update (flushed 0) example_bwa))
            \<le> 1 - lastFlushTime (Batch (this (bwa_Batch_update (flushed 0) example_bwa)))
          \<or> batchFlushCount (this (bwa_Batch_update (flushed 0) example_bwa))
            \<le> int (messagesSinceFlush (Batch (this (bwa_Batch_update (flushed 0) example_bwa)))))"
    and idle_sock: "\<not> (sint (batchTimeout_sock (this (connected [])))
            \<le> 1 - lastFlushTime (batch (this (connected [])))
          \<or> sint (batchFlushCount_sock (this (connected [])))
            \<le> int (messagesSinceFlush (batch (this (connected [])))))"
    by (simp_all add: example_bwa_simps bwa_Batch_update_def flushed_def sock)
  show ?thesis
    using FlushOnTimeOut_iff_threshold [of example_bwa 1 "connected [msg ''a'' 1]"]
          FlushOnTimeOut_iff_threshold [of "bwa_Batch_update (flushed 0) example_bwa" 1 "connected []"]
          reached reached_sock idle idle_sock
    by blast
qed

subsection \<open>Closing a BatchedWriterAssembly\<close>

text \<open>
  C2. \<^verbatim>\<open>Close()\<close> closes the batch and then calls \<^verbatim>\<open>bwa.writer.Close()\<close> without
  looking at \<^verbatim>\<open>bwa.writer\<close>. On an assembly whose writer was set and then cleared
  with \<^verbatim>\<open>UnsetWriter\<close> the batch is closed through the drop path and the call on the
  nil writer panics: the close of the sink does not happen without a crash.
\<close>

theorem Close_without_writer_panics:
  "BatchedWriterAssembly_Close 7 (example_bwa\<lparr>this := UnsetWriter (SetWriter 0 1 (this example_bwa))\<rparr>)
     = Inl NilPointerDereference"
  by (simp add: BatchedWriterAssembly_Close_def MessageBatch_Close_def MessageBatch_Flush_def
      UnsetWriter_def SetWriter_def bwa_Batch_def bwa_Batch_update_def
      bwa_assembly_Flush_def WriterAssembly_Flush_def emit_def example_bwa_simps)

subsection \<open>The Socket producer while it is not active\<close>

lemma sock_batch_lens [simp]:
  "sock_batch (sock_batch_update f w) = f (sock_batch w)"
  by (simp add: sock_batch_def sock_batch_update_def)

lemma AppendRetry_gives_up:
  "maxCount (get s) \<le> int (length (queue (get s))) \<Longrightarrow> \<not> isActive s \<Longrightarrow>
   AppendRetry get upd m trySend isActive onDrop s = Some (Inr (onDrop m s))"
  by (subst AppendRetry.simps) (simp add: Append_def)

lemma AppendRetry_acquires:
  "Append (get s) m = Inr b \<Longrightarrow>
   AppendRetry get upd m trySend isActive onDrop s = Some (Inr (upd (\<lambda>_. b) s))"
  by (subst AppendRetry.simps) simp

lemma AppendRetry_inactive:
  "\<not> isActive s \<Longrightarrow>
   AppendRetry get upd m trySend isActive onDrop s =
     Some (Inr (case Append (get s) m of Inr b \<Rightarrow> upd (\<lambda>_. b) s | Inl e \<Rightarrow> onDrop m s))"
  by (subst AppendRetry.simps) (simp split: sum.splits append_error.splits)

lemma sendMessage_inactive:
  "\<not> IsActive (base (this w)) \<Longrightarrow>
   \<exists>w'. Socket_sendMessage now m w = Some (Inr w') \<and> base (this w') = base (this w)"
  by (simp add: Socket_sendMessage_def AppendRetry_inactive sock_batch_update_def Drop_def emit_def
      split: sum.splits)

lemma send_each_inactive:
  "\<not> IsActive (base (this w)) \<Longrightarrow>
   \<exists>w'. send_each (Socket_sendMessage now) ms w = Some (Inr w') \<and> base (this w') = base (this w)"
proof (induction ms arbitrary: w)
  case Nil
  then show ?case by simp
next
  case (Cons m ms)
  from sendMessage_inactive [OF Cons.prems, of now m]
  obtain w1 where w1: "Socket_sendMessage now m w = Some (Inr w1)" "base (this w1) = base (this w)"
    by blast
  with Cons.prems have "\<not> IsActive (base (this w1))" by simp
  from Cons.IH [OF this] w1 show ?case by auto
qed

lemma write_each_Socket_Flush:
  "write_each Socket_assembly_Flush ms w =
     Inr (w\<lparr>events := events w @ map (\<lambda>m. Discarded (formatter (assembly_sock (this w)) m)) ms\<rparr>)"
  by (induction ms arbitrary: w) (simp_all add: Socket_assembly_Flush_def WriterAssembly_Flush_def emit_def)

lemma sendBatch_inactive:
  "\<not> IsActive (base (this w)) \<Longrightarrow>
   \<exists>w'. Socket_sendBatch now w = Inr w' \<and> base (this w') = base (this w)"
  by (auto simp add: Socket_sendBatch_def Let_def net_Dial_def emit_def SetWriteBuffer_def
      MessageBatch_Flush_def write_each_Socket_Flush sock_batch_update_def sock_batch_def
      split: option.splits list.splits prod.splits)

lemma stopping_simps:
  "state (base (this (stopping ms))) = Stopping"
  "shutdownTimeout (base (this (stopping ms))) = 0"
  "inflight (base (this (stopping ms))) = []"
  "connection (this (stopping ms)) = None"
  "queue (batch (this (stopping ms))) = ms"
  "events (stopping ms) = []"
  "dials (stopping ms) = []"
  "protocol (this (stopping ms)) = ''udp''"
  "address (this (stopping ms)) = '':5880''"
  "formatter (assembly_sock (this (stopping ms))) = payload"
  "maxCount (batch (this (stopping ms))) = 10"
  by (simp_all add: stopping_def example_sock_def example_socket_def NewWriterAssembly_def NewMessageBatch_def)

subsection \<open>Giving up on a full batch\<close>

text \<open>
  C6. \<^verbatim>\<open>AppendRetry\<close> on a full batch while \<open>isActive\<close> returns false returns,
  and what it has done is one call of \<open>onDrop\<close> on the message: the send function
  is not called and the batch is as before. For \<^verbatim>\<open>Socket.sendMessage\<close> the message is
  handed to \<^verbatim>\<open>Drop\<close> once and nothing else changes.
\<close>

theorem AppendRetry_full_inactive_drops_once:
  "(maxCount (get s) \<le> int (length (queue (get s))) \<and> \<not> isActive s
      \<longrightarrow> AppendRetry get upd m trySend isActive onDrop s = Some (Inr (onDrop m s)))
   \<and> (maxCount (batch (this w)) \<le> int (length (queue (batch (this w)))) \<and> \<not> IsActive (base (this w))
      \<longrightarrow> Socket_sendMessage now m w = Some (Inr (w\<lparr>events := events w @ [Dropped m]\<rparr>)))"
  by (simp add: AppendRetry_gives_up Socket_sendMessage_def sock_batch_def Drop_def emit_def)

theorem AppendRetry_full_inactive_drops_once_witness:
  "maxCount (batch (this (stopping ten))) \<le> int (length (queue (batch (this (stopping ten)))))
   \<and> \<not> IsActive (base (this (stopping ten)))
   \<and> Socket_sendMessage 9 (msg ''late'' 10) (stopping ten)
       = Some (Inr ((stopping ten)\<lparr>events := [Dropped (msg ''late'' 10)]\<rparr>))"
proof -
  have full: "maxCount (batch (this (stopping ten))) \<le> int (length (queue (batch (this (stopping ten)))))"
    by (simp add: stopping_simps ten_def)
  have inactive: "\<not> IsActive (base (this (stopping ten)))"
    by (simp add: IsActive_def stopping_simps)
  from AppendRetry_full_inactive_drops_once [THEN conjunct2, THEN mp, OF conjI [OF full inactive], of 9 "msg ''late'' 10"]
  show ?thesis
    using full inactive by (simp add: stopping_simps)
qed

subsection \<open>Shutdown of the Socket producer\<close>

lemma close_drop_total:
  "close_drop now w =
     Inr (if IsEmpty (batch (this w)) then w
          else (sock_batch_update (flushed now \<circ> MessageBatch_Close0) w)
                 \<lparr>events := events w @ map (\<lambda>m. Discarded (formatter (assembly_sock (this w)) m)) (queue (batch (this w)))\<rparr>)"
  by (simp add: close_drop_def MessageBatch_Flush_def write_each_Socket_Flush WaitForFlush_def
      sock_batch_update_def sock_batch_def MessageBatch_Close0_def)

lemma close_graceful_inactive:
  assumes "\<not> IsActive (base (this w))"
  shows "\<exists>w1. close_graceful k now w = Some (Inr w1)"
proof -
  let ?w0 = "w\<lparr>this := (this w)\<lparr>base := (base (this w))\<lparr>inflight := drop k (inflight (base (this w)))\<rparr>\<rparr>\<rparr>"
  have "\<not> IsActive (base (this ?w0))" using assms by (simp add: IsActive_def)
  from send_each_inactive [OF this, of now "take k (inflight (base (this w)))"]
  obtain w1 where w1: "send_each (Socket_sendMessage now) (take k (inflight (base (this w)))) ?w0 = Some (Inr w1)"
     "base (this w1) = base (this ?w0)" by blast
  have "\<not> IsActive (base (this (sock_batch_update MessageBatch_Close0 w1)))"
    using w1(2) assms by (simp add: IsActive_def sock_batch_update_def)
  from sendBatch_inactive [OF this, of now]
  obtain w2 where w2: "Socket_sendBatch now (sock_batch_update MessageBatch_Close0 w1) = Inr w2" by blast
  show ?thesis
    by (simp add: close_graceful_def CloseGracefully_def Let_def w1(1) w2)
qed

text \<open>
  C3. \<^verbatim>\<open>Socket.close\<close>, called while the producer is no longer active (shutdown
  has been requested), returns, whatever the shutdown timeout and however few of the
  messages in flight were handled before the deadline. Every message that is still
  in the batch after the graceful flush attempt goes through the drop path
  \<^verbatim>\<open>assembly.Flush\<close>, in order, and none of them is written to a sink; the batch is
  empty afterwards, the connection, if there is one, is closed, and the producer has
  signalled \<open>Stopped\<close>.
\<close>

theorem close_drops_what_remains:
  assumes "\<not> IsActive (base (this w))"
  shows "\<exists>w1 w'. close_graceful k now w = Some (Inr w1)
           \<and> Socket_close k now w = Some (Inr w')
           \<and> IsEmpty (batch (this w'))
           \<and> events w' = events w1 @ map (\<lambda>m. Discarded (formatter (assembly_sock (this w1)) m)) (queue (batch (this w1)))
           \<and> (\<forall>h. written (sinks w' h) = written (sinks w1 h))
           \<and> (\<forall>c. connection (this w') = Some c \<longrightarrow> isClosed (sinks w' c))
           \<and> state (base (this w')) = Stopped"
proof -
  from close_graceful_inactive [OF assms] obtain w1 where w1: "close_graceful k now w = Some (Inr w1)"
    by blast
  show ?thesis
    by (simp add: Socket_close_def w1 close_drop_total close_deferred_def WorkerDone_def
        sock_batch_update_def flushed_def MessageBatch_Close0_def IsEmpty_def sink_Close_def Let_def
        split: option.splits)
qed

theorem close_drops_what_remains_witness:
  "\<not> IsActive (base (this (stopping ten)))
   \<and> shutdownTimeout (base (this (stopping ten))) = 0
   \<and> length (queue (batch (this (stopping ten)))) = 10
   \<and> (\<exists>w'. Socket_close 0 9 (stopping ten) = Some (Inr w')
         \<and> IsEmpty (batch (this w'))
         \<and> events w' = Dialed ''udp'' '':5880'' # map (\<lambda>m. Discarded (payload m)) ten
         \<and> state (base (this w')) = Stopped)"
proof -
  have inactive: "\<not> IsActive (base (this (stopping ten)))"
    by (simp add: IsActive_def stopping_simps)
  have "\<exists>w1. close_graceful 0 9 (stopping ten) = Some (Inr w1)
          \<and> events w1 = [Dialed ''udp'' '':5880''] \<and> queue (batch (this w1)) = ten
          \<and> formatter (assembly_sock (this w1)) = payload"
    by (simp add: close_graceful_def CloseGracefully_def stopping_simps Socket_sendBatch_def
        net_Dial_def emit_def sock_batch_update_def WaitForFlush_def Let_def MessageBatch_Close0_def)
  with close_drops_what_remains [OF inactive, of 0 9] show ?thesis
    using inactive by (auto simp add: stopping_simps ten_def)
qed

subsection \<open>A failing write\<close>

lemma Socket_Write_None:
  "asmWriter (assembly_sock (this w)) = None \<Longrightarrow> Socket_assembly_Write m w = Inr (emit (Dropped m) w)"
  by (simp add: Socket_assembly_Write_def WriterAssembly_Write_def tryFallback_def)

lemma write_each_Socket_Write_None:
  "asmWriter (assembly_sock (this w)) = None \<Longrightarrow>
   write_each Socket_assembly_Write ms w = Inr (w\<lparr>events := events w @ map Dropped ms\<rparr>)"
  by (induction ms arbitrary: w) (simp_all add: Socket_Write_None emit_def)

lemma Socket_Write_fail:
  "connection (this w) = Some c \<Longrightarrow> asmWriter (assembly_sock (this w)) = Some c \<Longrightarrow>
   isClosed (sinks w c) \<or> capacity (sinks w c) \<le> length (written (sinks w c)) \<Longrightarrow>
   Socket_assembly_Write m w = Inr (invalidated c m w)"
  by (auto simp add: Socket_assembly_Write_def WriterAssembly_Write_def sink_Write_def Let_def
      Socket_onWriteError_def failWrite_def tryFallback_def emit_def sink_Close_def invalidated_def)

lemma sendBatch_dials:
  "connection (this v) = None \<Longrightarrow> queue (batch (this v)) = [] \<Longrightarrow>
   \<exists>v'. Socket_sendBatch now v = Inr v'
      \<and> events v' = events v @ [Dialed (protocol (this v)) (address (this v))]"
  by (auto simp add: Socket_sendBatch_def Let_def net_Dial_def emit_def SetWriteBuffer_def
      MessageBatch_Flush_def sock_batch_def sock_batch_update_def
      split: option.splits list.splits prod.splits)

lemma connected_simps:
  "connection (this (connected ms)) = Some 0"
  "asmWriter (assembly_sock (this (connected ms))) = Some 0"
  "sinks (connected ms) h = open_sink 0"
  "state (base (this (connected ms))) = Active"
  "queue (batch (this (connected ms))) = ms"
  "events (connected ms) = []"
  "protocol (this (connected ms)) = ''udp''"
  "address (this (connected ms)) = '':5880''"
  by (simp_all add: connected_def example_sock_def example_socket_def WriterAssembly_SetWriter_def)

text \<open>
  C7. When a write to the sink fails, the error handler closes the connection, clears
  it and returns failure. The message is handed to the drop fallback and is not
  written again: the rest of the same flush neither writes nor reconnects, every
  later message of the snapshot is handed to the drop fallback as well. The next
  call of \<^verbatim>\<open>sendBatch\<close> starts by dialling the address again.
\<close>

theorem write_failure_invalidates_sink:
  assumes conn: "connection (this w) = Some c"
    and asm: "asmWriter (assembly_sock (this w)) = Some c"
    and rejects: "isClosed (sinks w c) \<or> capacity (sinks w c) \<le> length (written (sinks w c))"
  shows "Socket_onWriteError w = Inr (False, (sink_Close c w)\<lparr>this := (this w)\<lparr>connection := None\<rparr>\<rparr>)
    \<and> Socket_assembly_Write m w = Inr (invalidated c m w)
    \<and> write_each Socket_assembly_Write (m # ms) w
         = Inr ((invalidated c m w)\<lparr>events := events w @ Dropped m # map Dropped ms\<rparr>)
    \<and> (IsActive (base (this w)) \<and> queue (batch (this w)) = m # ms \<longrightarrow>
        (\<exists>w'. Socket_sendBatch now w = Inr w'
           \<and> connection (this w') = None
           \<and> isClosed (sinks w' c)
           \<and> written (sinks w' c) = written (sinks w c)
           \<and> events w' = events w @ map Dropped (m # ms)
           \<and> (\<forall>later. \<exists>w''. Socket_sendBatch later w' = Inr w''
                 \<and> events w'' = events w' @ [Dialed (protocol (this w)) (address (this w))])))"
proof (intro conjI impI)
  show "Socket_onWriteError w = Inr (False, (sink_Close c w)\<lparr>this := (this w)\<lparr>connection := None\<rparr>\<rparr>)"
    by (simp add: Socket_onWriteError_def conn)
  show one: "Socket_assembly_Write m w = Inr (invalidated c m w)"
    using conn asm rejects by (rule Socket_Write_fail)
  have gone: "asmWriter (assembly_sock (this (invalidated c m w))) = None"
    by (simp add: invalidated_def)
  show rest: "write_each Socket_assembly_Write (m # ms) w
         = Inr ((invalidated c m w)\<lparr>events := events w @ Dropped m # map Dropped ms\<rparr>)"
    using Socket_Write_fail [OF conn asm rejects, of m]
    by (simp add: write_each_Socket_Write_None [OF gone]) (simp add: invalidated_def)
next
  assume run: "IsActive (base (this w)) \<and> queue (batch (this w)) = m # ms"
  let ?v = "sock_batch_update (flushed now) w"
  have conn': "connection (this ?v) = Some c" and asm': "asmWriter (assembly_sock (this ?v)) = Some c"
    and rejects': "isClosed (sinks ?v c) \<or> capacity (sinks ?v c) \<le> length (written (sinks ?v c))"
    using conn asm rejects by (simp_all add: sock_batch_update_def)
  have gone: "asmWriter (assembly_sock (this (invalidated c m ?v))) = None"
    by (simp add: invalidated_def)
  let ?w' = "(invalidated c m ?v)\<lparr>events := events w @ Dropped m # map Dropped ms\<rparr>"
  have flush: "Socket_sendBatch now w = Inr ?w'"
    using run conn Socket_Write_fail [OF conn' asm' rejects', of m]
    by (simp add: Socket_sendBatch_def MessageBatch_Flush_def sock_batch_def
        write_each_Socket_Write_None [OF gone])
      (simp add: invalidated_def sock_batch_update_def)
  have empty: "connection (this ?w') = None" "queue (batch (this ?w')) = []"
    "protocol (this ?w') = protocol (this w)" "address (this ?w') = address (this w)"
    by (simp_all add: invalidated_def sock_batch_update_def flushed_def)
  have again: "\<exists>w''. Socket_sendBatch later ?w' = Inr w''
                 \<and> events w'' = events ?w' @ [Dialed (protocol (this w)) (address (this w))]" for later
    using sendBatch_dials [OF empty(1,2), of later] by (simp add: invalidated_def sock_batch_update_def)
  show "\<exists>w'. Socket_sendBatch now w = Inr w'
           \<and> connection (this w') = None
           \<and> isClosed (sinks w' c)
           \<and> written (sinks w' c) = written (sinks w c)
           \<and> events w' = events w @ map Dropped (m # ms)
           \<and> (\<forall>later. \<exists>w''. Socket_sendBatch later w' = Inr w''
                 \<and> events w'' = events w' @ [Dialed (protocol (this w)) (address (this w))])"
    unfolding flush using again
    by (simp add: invalidated_def sock_batch_update_def)
qed

theorem write_failure_invalidates_sink_witness:
  "connection (this (connected [msg ''a'' 1, msg ''b'' 2])) = Some 0
   \<and> asmWriter (assembly_sock (this (connected [msg ''a'' 1, msg ''b'' 2]))) = Some 0
   \<and> capacity (sinks (connected [msg ''a'' 1, msg ''b'' 2]) 0)
        \<le> length (written (sinks (connected [msg ''a'' 1, msg ''b'' 2]) 0))
   \<and> IsActive (base (this (connected [msg ''a'' 1, msg ''b'' 2])))
   \<and> (\<exists>w'. Socket_sendBatch 7 (connected [msg ''a'' 1, msg ''b'' 2]) = Inr w'
         \<and> connection (this w') = None
         \<and> isClosed (sinks w' 0)
         \<and> written (sinks w' 0) = []
         \<and> events w' = [Dropped (msg ''a'' 1), Dropped (msg ''b'' 2)]
         \<and> (\<exists>w''. Socket_sendBatch 8 w' = Inr w''
               \<and> events w'' = [Dropped (msg ''a'' 1), Dropped (msg ''b'' 2), Dialed ''udp'' '':5880'']))"
proof -
  let ?w = "connected [msg ''a'' 1, msg ''b'' 2]"
  have conn: "connection (this ?w) = Some 0" and asm: "asmWriter (assembly_sock (this ?w)) = Some 0"
    and rejects: "isClosed (sinks ?w 0) \<or> capacity (sinks ?w 0) \<le> length (written (sinks ?w 0))"
    and run: "IsActive (base (this ?w)) \<and> queue (batch (this ?w)) = msg ''a'' 1 # [msg ''b'' 2]"
    by (simp_all add: connected_simps open_sink_def IsActive_def)
  from write_failure_invalidates_sink [OF conn asm rejects, of "msg ''a'' 1" "[msg ''b'' 2]" 7,
      THEN conjunct2, THEN conjunct2, THEN conjunct2, THEN mp, OF run]
  obtain w' where w': "Socket_sendBatch 7 ?w = Inr w'" "connection (this w') = None"
    "isClosed (sinks w' 0)" "written (sinks w' 0) = written (sinks ?w 0)"
    "events w' = events ?w @ map Dropped [msg ''a'' 1, msg ''b'' 2]"
    "\<forall>later. \<exists>w''. Socket_sendBatch later w' = Inr w''
        \<and> events w'' = events w' @ [Dialed (protocol (this ?w)) (address (this ?w))]"
    by blast
  from w'(6) obtain w'' where "Socket_sendBatch 8 w' = Inr w''"
    "events w'' = events w' @ [Dialed (protocol (this ?w)) (address (this ?w))]"
    by blast
  with w' conn asm rejects run show ?thesis
    by (simp add: connected_simps open_sink_def)
qed

subsection \<open>Configuration of the batch counts\<close>

lemma MinI_le: "sint (MinI a b) \<le> sint b"
  by (simp add: MinI_def)

text \<open>
  C8, as stated, fails: \<^verbatim>\<open>Configure\<close> returns without an error on a configuration
  whose \<^verbatim>\<open>BatchMaxCount\<close> is 0, and the batch it creates has capacity 0.
\<close>

theorem Configure_rejects_zero_capacity_counterexample:
  "\<not> isl (Socket_Configure accepting zero_capacity 0 example_socket)
   \<and> maxCount (batch (projr (Socket_Configure accepting zero_capacity 0 example_socket))) = 0
   \<and> batchMaxCount (projr (Socket_Configure accepting zero_capacity 0 example_socket)) = 0"
  by (simp add: Socket_Configure_def accepting_def zero_capacity_def GetInt_def Let_def NewMessageBatch_def)

text \<open>
  C8, amended. \<^verbatim>\<open>Socket.Configure\<close> fails exactly with the error of
  \<^verbatim>\<open>ProducerBase.Configure\<close>. It does not look at the batch counts: the capacity is
  \<^verbatim>\<open>BatchMaxCount\<close> as configured (8192 when unset), the flush count is
  \<^verbatim>\<open>BatchFlushCount\<close> (half the capacity when unset) clamped to at most the capacity,
  and the batch is created with that capacity, zero and negative values included.
\<close>

theorem Configure_takes_batch_counts_as_given:
  "(ProducerBase_Configure ext conf (base sock) = Inl err
      \<longrightarrow> Socket_Configure ext conf now sock = Inl err)
   \<and> (ProducerBase_Configure ext conf (base sock) = Inr b
      \<longrightarrow> (\<exists>p. Socket_Configure ext conf now sock = Inr p
             \<and> base p = b
             \<and> batchMaxCount p = GetInt conf ''BatchMaxCount'' 8192
             \<and> batchFlushCount_sock p =
                 MinI (GetInt conf ''BatchFlushCount'' (word_of_int (sint (batchMaxCount p) sdiv 2)))
                   (batchMaxCount p)
             \<and> sint (batchFlushCount_sock p) \<le> sint (batchMaxCount p)
             \<and> batch p = NewMessageBatch (sint (batchMaxCount p)) now))"
  by (simp add: Socket_Configure_def Let_def MinI_le)

theorem Configure_takes_batch_counts_as_given_witness:
  "ProducerBase_Configure accepting zero_capacity (base example_socket) = Inr (base example_socket)
   \<and> (\<exists>p. Socket_Configure accepting zero_capacity 0 example_socket = Inr p
         \<and> batchMaxCount p = 0 \<and> batchFlushCount_sock p = 0 \<and> maxCount (batch p) = 0)
   \<and> ProducerBase_Configure (accepting\<lparr>ProducerBase_Configure := (\<lambda>conf b. Inl ConfigError)\<rparr>)
        zero_capacity (base example_socket) = Inl ConfigError
   \<and> Socket_Configure (accepting\<lparr>ProducerBase_Configure := (\<lambda>conf b. Inl ConfigError)\<rparr>)
        zero_capacity 0 example_socket = Inl ConfigError"
proof -
  have ok: "ProducerBase_Configure accepting zero_capacity (base example_socket) = Inr (base example_socket)"
    by (simp add: accepting_def)
  have bad: "ProducerBase_Configure (accepting\<lparr>ProducerBase_Configure := (\<lambda>conf b. Inl ConfigError)\<rparr>)
        zero_capacity (base example_socket) = Inl ConfigError"
    by simp
  note A = Configure_takes_batch_counts_as_given [of accepting zero_capacity example_socket _ 0 "base example_socket",
      THEN conjunct2, THEN mp, OF ok]
  note B = Configure_takes_batch_counts_as_given [THEN conjunct1, THEN mp, OF bad, of 0]
  show ?thesis
    using ok bad A B
    by (auto simp add: GetInt_def zero_capacity_def MinI_def NewMessageBatch_def)
qed

subsection \<open>Validation of the acknowledgement\<close>

lemma acknowledging_simps:
  "acknowledge (this (acknowledging ack answers)) = ack"
  "connection (this (acknowledging ack answers)) = Some 0"
  "incoming (sinks (acknowledging ack answers) h) = answers"
  "isClosed (sinks (acknowledging ack answers) h) = False"
  by (simp_all add: acknowledging_def connected_simps open_sink_def)

text \<open>
  C9. \<^verbatim>\<open>validate\<close> drops the byte count that \<^verbatim>\<open>Read\<close> returns and compares the
  whole buffer, which was made of zero bytes, with the acknowledgement. With the
  acknowledgement \<open>A\<close> followed by a zero byte configured and a read that returns the
  single byte \<open>A\<close>, the validation succeeds, although the bytes read from the
  connection are not the acknowledgement.
\<close>

theorem validate_accepts_short_read:
  "acknowledge (this (acknowledging [CHR ''A'', CHR 0x00] [ReadBytes ''A''])) \<noteq> []
   \<and> fst (sink_Read 0 (length (acknowledge (this (acknowledging [CHR ''A'', CHR 0x00] [ReadBytes ''A'']))))
           (acknowledging [CHR ''A'', CHR 0x00] [ReadBytes ''A''])) = ReadBytes ''A''
   \<and> ''A'' \<noteq> acknowledge (this (acknowledging [CHR ''A'', CHR 0x00] [ReadBytes ''A'']))
   \<and> \<not> isl (Socket_validate (acknowledging [CHR ''A'', CHR 0x00] [ReadBytes ''A'']))
   \<and> fst (projr (Socket_validate (acknowledging [CHR ''A'', CHR 0x00] [ReadBytes ''A''])))"
  by (simp add: Socket_validate_def acknowledging_simps sink_Read_def response_def Let_def)

subsection \<open>Order of delivery\<close>

lemma Append_room:
  "\<not> closed b \<Longrightarrow> int (length (queue b)) < maxCount b \<Longrightarrow>
   Append b m = Inr (b\<lparr>queue := queue b @ [m], messagesSinceFlush := Suc (messagesSinceFlush b)\<rparr>)"
  by (simp add: Append_def)

lemma run_appends_room:
  assumes lens: "\<And>f s. get (upd f s) = f (get s)"
  shows "\<not> closed (get s) \<Longrightarrow> int (length (queue (get s))) + int (length cs) \<le> maxCount (get s) \<Longrightarrow>
    \<exists>s'. run_appends get upd trySend isActive onDrop cs s = Some (Inr s')
        \<and> queue (get s') = queue (get s) @ map call_message cs"
proof (induction cs arbitrary: s)
  case Nil
  then show ?case by simp
next
  case (Cons c cs)
  let ?m = "call_message c"
  let ?b = "(get s)\<lparr>queue := queue (get s) @ [?m], messagesSinceFlush := Suc (messagesSinceFlush (get s))\<rparr>"
  let ?s1 = "upd (\<lambda>_. ?b) s"
  have app: "Append (get s) ?m = Inr ?b"
    using Cons.prems by (intro Append_room) auto
  have b1: "get ?s1 = ?b" by (simp add: lens)
  have "\<not> closed (get ?s1)" "int (length (queue (get ?s1))) + int (length cs) \<le> maxCount (get ?s1)"
    using Cons.prems by (simp_all add: b1)
  from Cons.IH [OF this] obtain s' where
    s': "run_appends get upd trySend isActive onDrop cs ?s1 = Some (Inr s')"
        "queue (get s') = queue (get ?s1) @ map call_message cs"
    by blast
  show ?case
  proof (cases c)
    case (ByAppend m)
    with app s' b1 show ?thesis by simp
  next
    case (ByAppendRetry m)
    with app have "AppendRetry get upd m trySend isActive onDrop s = Some (Inr ?s1)"
      by (subst AppendRetry.simps) simp
    with ByAppendRetry s' b1 show ?thesis by simp
  qed
qed

text \<open>
  C1. After a run of \<^verbatim>\<open>Append\<close> and \<^verbatim>\<open>AppendRetry\<close> calls on an open batch that
  has room for all of them, every call has acquired its slot, and a following
  \<^verbatim>\<open>Flush(writeFn)\<close> calls \<open>writeFn\<close> once per buffered message, in the order
  in which the calls were made, and leaves the batch empty.
\<close>

theorem Flush_delivers_in_append_order:
  assumes lens: "\<And>f s. get (upd f s) = f (get s)"
    and "\<not> closed (get s)"
    and "int (length (queue (get s))) + int (length cs) \<le> maxCount (get s)"
  shows "\<exists>s'. run_appends get upd trySend isActive onDrop cs s = Some (Inr s')
           \<and> queue (get s') = queue (get s) @ map call_message cs
           \<and> MessageBatch_Flush get upd now writeFn s'
               = write_each writeFn (queue (get s) @ map call_message cs) (upd (flushed now) s')
           \<and> IsEmpty (get (upd (flushed now) s'))"
proof -
  from run_appends_room [of get upd s cs trySend isActive onDrop, OF lens assms(2,3)]
  obtain s' where s': "run_appends get upd trySend isActive onDrop cs s = Some (Inr s')"
    "queue (get s') = queue (get s) @ map call_message cs"
    by blast
  then show ?thesis
    by (simp add: MessageBatch_Flush_def lens IsEmpty_def flushed_def)
qed

theorem Flush_delivers_in_append_order_witness:
  "(\<forall>f s. sock_batch (sock_batch_update f s) = f (sock_batch s))
   \<and> \<not> closed (sock_batch example_sock)
   \<and> int (length (queue (sock_batch example_sock))) + int (length [ByAppend (msg ''a'' 1), ByAppendRetry (msg ''b'' 2)])
        \<le> maxCount (sock_batch example_sock)
   \<and> (\<exists>s'. run_appends sock_batch sock_batch_update (Socket_sendBatch 3) (\<lambda>w. IsActive (base (this w))) Drop
              [ByAppend (msg ''a'' 1), ByAppendRetry (msg ''b'' 2)] example_sock = Some (Inr s')
         \<and> queue (sock_batch s') = [msg ''a'' 1, msg ''b'' 2]
         \<and> (\<exists>w'. MessageBatch_Flush sock_batch sock_batch_update 7 Socket_assembly_Flush s' = Inr w'
               \<and> events w' = [Discarded ''a'', Discarded ''b'']))"
proof -
  have lens: "\<And>f s. sock_batch (sock_batch_update f s) = f (sock_batch s)"
    by simp
  have open_batch: "\<not> closed (sock_batch example_sock)"
    and room: "int (length (queue (sock_batch example_sock)))
        + int (length [ByAppend (msg ''a'' 1), ByAppendRetry (msg ''b'' 2)]) \<le> maxCount (sock_batch example_sock)"
    and start: "queue (sock_batch example_sock) = []" "events example_sock = []"
       "formatter (assembly_sock (this example_sock)) = payload"
    by (simp_all add: sock_batch_def example_sock_def example_socket_def NewMessageBatch_def NewWriterAssembly_def)
  from Flush_delivers_in_append_order [of sock_batch sock_batch_update, OF lens open_batch room,
      of "Socket_sendBatch 3" "\<lambda>w. IsActive (base (this w))" Drop 7 Socket_assembly_Flush]
  obtain s' where s':
    "run_appends sock_batch sock_batch_update (Socket_sendBatch 3) (\<lambda>w. IsActive (base (this w))) Drop
       [ByAppend (msg ''a'' 1), ByAppendRetry (msg ''b'' 2)] example_sock = Some (Inr s')"
    "queue (sock_batch s') = queue (sock_batch example_sock) @ map call_message [ByAppend (msg ''a'' 1), ByAppendRetry (msg ''b'' 2)]"
    "MessageBatch_Flush sock_batch sock_batch_update 7 Socket_assembly_Flush s'
       = write_each Socket_assembly_Flush
           (queue (sock_batch example_sock) @ map call_message [ByAppend (msg ''a'' 1), ByAppendRetry (msg ''b'' 2)])
           (sock_batch_update (flushed 7) s')"
    by blast
  have ev: "events s' = []" "formatter (assembly_sock (this s')) = payload"
    using s'(1) start
    by (auto simp add: AppendRetry.simps Append_def sock_batch_def sock_batch_update_def
        example_sock_def example_socket_def NewMessageBatch_def NewWriterAssembly_def split: if_splits)
  let ?v = "sock_batch_update (flushed 7) s'"
  have flush: "MessageBatch_Flush sock_batch sock_batch_update 7 Socket_assembly_Flush s'
      = Inr (?v\<lparr>events := events ?v @ map (\<lambda>m. Discarded (formatter (assembly_sock (this ?v)) m))
          (queue (sock_batch example_sock) @ map call_message [ByAppend (msg ''a'' 1), ByAppendRetry (msg ''b'' 2)])\<rparr>)"
    by (simp only: s'(3) write_each_Socket_Flush)
  show ?thesis
    using lens open_batch room s'(1,2) start ev
    by (simp add: flush sock_batch_update_def msg_def)
qed

end
